theory Spec2Isabelle
  imports Main "HOL-Library.Multiset"
begin

section \<open>Strings\<close>

text \<open>
  A Python \<open>str\<close> is modelled by a \<open>string\<close> holding its UTF-8 encoding. All
  patterns the scripts search for (\<open>/\<close>, \<open>:\<close>, \<open>_\<close>, \<open>-\<close>, newline,
  \<open>Loaded image:\<close>) are ASCII, and an ASCII byte never occurs inside a multi-byte UTF-8
  sequence, so searching and replacing on the bytes agrees with Python on the code points.
\<close>

text \<open>\<open>s.replace(old, new)\<close> for one-character \<open>old\<close> and \<open>new\<close>: every occurrence.\<close>

fun replace_all :: "char \<Rightarrow> char \<Rightarrow> string \<Rightarrow> string" where
  "replace_all old new [] = []"
| "replace_all old new (c # cs) = (if c = old then new else c) # replace_all old new cs"

text \<open>\<open>s.replace(old, new, 1)\<close> for one-character \<open>old\<close> and \<open>new\<close>: the first occurrence only.\<close>

fun replace_first :: "char \<Rightarrow> char \<Rightarrow> string \<Rightarrow> string" where
  "replace_first old new [] = []"
| "replace_first old new (c # cs) = (if c = old then new # cs else c # replace_first old new cs)"

text \<open>\<open>s.startswith(p)\<close> and \<open>s.endswith(p)\<close>.\<close>

definition startswith :: "string \<Rightarrow> string \<Rightarrow> bool" where
  "startswith s p = (take (length p) s = p)"

definition endswith :: "string \<Rightarrow> string \<Rightarrow> bool" where
  "endswith s p = (length p \<le> length s \<and> drop (length s - length p) s = p)"

text \<open>\<open>s.split(sep)\<close> for a one-character \<open>sep\<close>: every piece, the empty ones too.\<close>

fun split_all :: "char \<Rightarrow> string \<Rightarrow> string list" where
  "split_all sep [] = [[]]"
| "split_all sep (c # cs) =
     (if c = sep then [] # split_all sep cs
      else (case split_all sep cs of [] \<Rightarrow> [[c]] | w # ws \<Rightarrow> (c # w) # ws))"

text \<open>\<open>s.split(sep, 1)\<close>: one piece when \<open>sep\<close> does not occur, two otherwise.\<close>

definition split_once :: "char \<Rightarrow> string \<Rightarrow> string list" where
  "split_once sep s =
     (if sep \<in> set s
      then [takeWhile (\<lambda>c. c \<noteq> sep) s, tl (dropWhile (\<lambda>c. c \<noteq> sep) s)]
      else [s])"

text \<open>
  \<open>s.strip()\<close> removes the characters for which \<open>str.isspace\<close> holds from both ends.
  \<open>whitespace\<close> lists their UTF-8 encodings: the ASCII ones (U+0009 to U+000D, U+001C to
  U+001F, U+0020) and U+0085, U+00A0, U+1680, U+2000 to U+200A, U+2028, U+2029, U+202F,
  U+205F, U+3000.
\<close>

definition whitespace :: "string list" where
  "whitespace =
     [[CHR 0x09], [CHR 0x0A], [CHR 0x0B], [CHR 0x0C], [CHR 0x0D],
      [CHR 0x1C], [CHR 0x1D], [CHR 0x1E], [CHR 0x1F], [CHR 0x20],
      [CHR 0xC2, CHR 0x85], [CHR 0xC2, CHR 0xA0], [CHR 0xE1, CHR 0x9A, CHR 0x80],
      [CHR 0xE2, CHR 0x80, CHR 0x80], [CHR 0xE2, CHR 0x80, CHR 0x81],
      [CHR 0xE2, CHR 0x80, CHR 0x82], [CHR 0xE2, CHR 0x80, CHR 0x83],
      [CHR 0xE2, CHR 0x80, CHR 0x84], [CHR 0xE2, CHR 0x80, CHR 0x85],
      [CHR 0xE2, CHR 0x80, CHR 0x86], [CHR 0xE2, CHR 0x80, CHR 0x87],
      [CHR 0xE2, CHR 0x80, CHR 0x88], [CHR 0xE2, CHR 0x80, CHR 0x89],
      [CHR 0xE2, CHR 0x80, CHR 0x8A], [CHR 0xE2, CHR 0x80, CHR 0xA8],
      [CHR 0xE2, CHR 0x80, CHR 0xA9], [CHR 0xE2, CHR 0x80, CHR 0xAF],
      [CHR 0xE2, CHR 0x81, CHR 0x9F], [CHR 0xE3, CHR 0x80, CHR 0x80]]"

text \<open>Drop leading occurrences of the given encodings, as long as one of them is a prefix.\<close>

function strip_prefixes :: "string list \<Rightarrow> string \<Rightarrow> string" where
  "strip_prefixes ws s =
     (case find (\<lambda>w. w \<noteq> [] \<and> startswith s w) ws of
        None \<Rightarrow> s
      | Some w \<Rightarrow> strip_prefixes ws (drop (length w) s))"
  by pat_completeness auto
termination
proof (relation "measure (\<lambda>(ws, s). length s)")
  show "wf (measure (\<lambda>(ws, s). length s))" by simp
next
  fix ws :: "string list" and s w :: string
  assume "find (\<lambda>w. w \<noteq> [] \<and> startswith s w) ws = Some w"
  then have "w \<noteq> []" and "startswith s w"
    by (auto simp: find_Some_iff)
  then have "s \<noteq> []"
    by (auto simp: startswith_def)
  with \<open>w \<noteq> []\<close> show "((ws, drop (length w) s), (ws, s)) \<in> measure (\<lambda>(ws, s). length s)"
    by (cases w; cases s) auto
qed

declare strip_prefixes.simps [simp del]

definition lstrip :: "string \<Rightarrow> string" where
  "lstrip s = strip_prefixes whitespace s"

definition rstrip :: "string \<Rightarrow> string" where
  "rstrip s = rev (strip_prefixes (map rev whitespace) (rev s))"

definition strip :: "string \<Rightarrow> string" where
  "strip s = rstrip (lstrip s)"

section \<open>Archive naming (\<open>download_images.py\<close>)\<close>

text \<open>
  \<open>safe_name = image.replace(':', '-').replace('/', '_')\<close> and the archive
  \<open>f"{safe_name}.tar"\<close>, as computed in \<open>save_image\<close>, \<open>show_download_summary\<close> and
  \<open>generate_manifest\<close>.
\<close>

definition safe_name :: "string \<Rightarrow> string" where
  "safe_name img = replace_all (CHR ''/'') (CHR ''_'') (replace_all (CHR '':'') (CHR ''-'') img)"

definition tar_name :: "string \<Rightarrow> string" where
  "tar_name img = safe_name img @ ''.tar''"

text \<open>The reading of the naming convention that touches only the first separator of each kind.\<close>

definition first_only_name :: "string \<Rightarrow> string" where
  "first_only_name img =
     replace_first (CHR ''/'') (CHR ''_'') (replace_first (CHR '':'') (CHR ''-'') img) @ ''.tar''"

section \<open>Values shared by both scripts\<close>

text \<open>An exception: its class and its text, \<open>str(e)\<close>.\<close>

datatype exn = Exn (exn_class: string) (exn_text: string)

text \<open>
  \<open>subprocess.run(...)\<close>: either the process ran and exited, with its return code, standard
  output and standard error, or \<open>run\<close> itself raised (the binary is missing, say).
\<close>

datatype proc = Exited int string string | Raised exn

text \<open>
  What \<open>json.load\<close> returns and \<open>json.dump\<close> accepts. Numbers are integers: the only
  numbers the scripts write are counts and sizes. A dictionary is an association list
  read from the left.
\<close>

datatype json =
    JNull
  | JBool bool
  | JInt int
  | JStr string
  | JList "json list"
  | JDict "(string \<times> json) list"

text \<open>
  A path is the string \<open>str(path)\<close>. The file system maps a path to what is there: a
  directory or a file, its size in bytes, and the JSON document its content is, when it
  is one. Writing a document and reading it back goes through \<open>json.dump\<close> and
  \<open>json.load\<close> of the standard library, which are not part of the scripts: a file
  written with \<open>json.dump(v, f)\<close> holds the document \<open>v\<close>.
\<close>

type_synonym path = string

record node =
  is_dir :: bool
  st_size :: nat
  json_doc :: "json option"

type_synonym fs = "path \<Rightarrow> node option"

text \<open>\<open>dir / name\<close>; redundant separators and dots are kept as written.\<close>

definition join_path :: "path \<Rightarrow> string \<Rightarrow> path" where
  "join_path dir name = dir @ ''/'' @ name"

definition is_absolute :: "path \<Rightarrow> bool" where
  "is_absolute p = startswith p ''/''"

text \<open>\<open>path.name\<close>: the last component.\<close>

definition path_name :: "path \<Rightarrow> string" where
  "path_name p = rev (takeWhile (\<lambda>c. c \<noteq> CHR ''/'') (rev p))"

text \<open>
  \<open>path.stem\<close>: the name without its last suffix. With \<open>i = name.rfind('.')\<close>, the stem
  is \<open>name[:i]\<close> when \<open>0 < i < len(name) - 1\<close> and the whole name otherwise.
\<close>

definition path_stem :: "path \<Rightarrow> string" where
  "path_stem p =
     (let name = path_name p;
          ext = takeWhile (\<lambda>c. c \<noteq> CHR ''.'') (rev name);
          i = length name - length ext - 1
      in if CHR ''.'' \<in> set name \<and> 0 < i \<and> ext \<noteq> [] then take i name else name)"

text \<open>\<open>xs[i]\<close> for a literal index \<open>i \<ge> 0\<close>.\<close>

definition nth_item :: "'a list \<Rightarrow> nat \<Rightarrow> exn + 'a" where
  "nth_item xs i =
     (if i < length xs then Inr (xs ! i)
      else Inl (Exn ''IndexError'' ''list index out of range''))"

text \<open>How a run of a script ends: the exit code, the exception that ended it if one escaped
  \<open>main\<close> (the interpreter prints the traceback and exits with code 1), and the state of
  the worker object at that moment.\<close>

record 'st outcome =
  exit_code :: int
  uncaught :: "exn option"
  final :: 'st

definition exits :: "int \<Rightarrow> 'st \<Rightarrow> 'st outcome" where
  "exits code st = \<lparr>exit_code = code, uncaught = None, final = st\<rparr>"

definition crashes :: "exn \<Rightarrow> 'st \<Rightarrow> 'st outcome" where
  "crashes e st = \<lparr>exit_code = 1, uncaught = Some e, final = st\<rparr>"

text \<open>
  \<open>ThreadPoolExecutor(max_workers=w)\<close> raises \<open>ValueError\<close> unless \<open>w > 0\<close>.
\<close>

definition pool_error :: exn where
  "pool_error = Exn ''ValueError'' ''max_workers must be greater than 0''"

section \<open>The import script (\<open>import_images.py\<close>)\<close>

text \<open>
  What the script meets outside itself: the answers of the \<open>docker\<close> binary, the file
  system, the entries of a directory in the order \<open>glob\<close> yields them, and
  \<open>task_fault\<close>: an exception that leaves a worker's task although
  \<open>import_single_image\<close> catches every \<open>Exception\<close> of its own body (one raised inside
  its handler, for instance). \<open>future.result()\<close> re-raises it in the collecting loop.
\<close>

record import_env =
  version_run :: proc
  info_run :: proc
  load_run :: "path \<Rightarrow> proc"
  load_quiet_run :: "path \<Rightarrow> proc"
  images_run :: proc
  node_at :: fs
  listing :: "path \<Rightarrow> string list"
  task_fault :: "path \<Rightarrow> exn option"

text \<open>An entry of \<open>failed_imports\<close>: the dictionary \<open>{'file': ..., 'error': ...}\<close>.\<close>

record failed_import =
  ff_file :: string
  ff_error :: string

record importer =
  images_dir :: path
  max_workers :: int
  imported_images :: "string list"
  failed_imports :: "failed_import list"
  skipped_images :: "string list"

text \<open>\<open>DockerImageImporter.__init__\<close>\<close>

definition new_importer :: "path \<Rightarrow> int \<Rightarrow> importer" where
  "new_importer dir workers =
     \<lparr>images_dir = dir, max_workers = workers,
      imported_images = [], failed_imports = [], skipped_images = []\<rparr>"

text \<open>
  One \<open>subprocess.run(..., check=True)\<close> under the handlers of \<open>check_docker\<close>: a
  non-zero exit is a \<open>CalledProcessError\<close> and is caught, as is a
  \<open>FileNotFoundError\<close>; any other exception leaves \<open>check_docker\<close>.
\<close>

definition checked_run :: "proc \<Rightarrow> exn + bool" where
  "checked_run p =
     (case p of
        Exited rc out err \<Rightarrow> Inr (rc = 0)
      | Raised e \<Rightarrow>
          if exn_class e = ''FileNotFoundError'' \<or> exn_class e = ''CalledProcessError''
          then Inr False else Inl e)"

text \<open>\<open>DockerImageImporter.check_docker\<close>: \<open>docker --version\<close>, then \<open>docker info\<close>.\<close>

definition check_docker_import :: "import_env \<Rightarrow> exn + bool" where
  "check_docker_import env =
     (case checked_run (version_run env) of
        Inl e \<Rightarrow> Inl e
      | Inr ok \<Rightarrow> if ok then checked_run (info_run env) else Inr False)"

text \<open>\<open>DockerImageImporter.find_image_files\<close>, with \<open>images_dir.glob("*.tar")\<close>.\<close>

definition glob_tar :: "import_env \<Rightarrow> path \<Rightarrow> path list" where
  "glob_tar env dir =
     (case node_at env dir of
        None \<Rightarrow> []
      | Some n \<Rightarrow>
          if is_dir n then map (join_path dir) (filter (\<lambda>name. endswith name ''.tar'') (listing env dir))
          else [])"

definition find_image_files :: "import_env \<Rightarrow> importer \<Rightarrow> path list" where
  "find_image_files env imp =
     (if node_at env (images_dir imp) = None then []
      else let tar_files = glob_tar env (images_dir imp)
           in if tar_files = [] then [] else tar_files)"

text \<open>\<open>len(v)\<close> is defined for strings, lists and dictionaries.\<close>

fun has_len :: "json \<Rightarrow> bool" where
  "has_len (JStr s) = True"
| "has_len (JList xs) = True"
| "has_len (JDict kvs) = True"
| "has_len v = False"

text \<open>
  \<open>DockerImageImporter.load_manifest\<close>. No file: \<open>None\<close>. Otherwise
  \<open>json.load\<close> and \<open>len(manifest.get('images', []))\<close> run inside \<open>try\<close>, and every
  exception gives \<open>None\<close>: an unreadable file, a file that is not JSON, a document that
  is no dictionary (it has no \<open>get\<close>), an \<open>images\<close> value without a length.
\<close>

definition manifest_path :: "path \<Rightarrow> path" where
  "manifest_path dir = join_path dir ''images_manifest.json''"

definition load_manifest :: "import_env \<Rightarrow> importer \<Rightarrow> json option" where
  "load_manifest env imp =
     (case node_at env (manifest_path (images_dir imp)) of
        None \<Rightarrow> None
      | Some n \<Rightarrow>
          (case json_doc n of
             None \<Rightarrow> None
           | Some manifest \<Rightarrow>
               (case manifest of
                  JDict kvs \<Rightarrow>
                    (case map_of kvs ''images'' of
                       None \<Rightarrow> Some manifest
                     | Some v \<Rightarrow> if has_len v then Some manifest else None)
                | _ \<Rightarrow> None)))"

text \<open>The manifest check of \<open>main\<close>, which runs outside any \<open>try\<close>.\<close>

text \<open>\<open>if manifest:\<close>\<close>

fun truthy :: "json \<Rightarrow> bool" where
  "truthy JNull = False"
| "truthy (JBool b) = b"
| "truthy (JInt i) = (i \<noteq> 0)"
| "truthy (JStr s) = (s \<noteq> [])"
| "truthy (JList xs) = (xs \<noteq> [])"
| "truthy (JDict kvs) = (kvs \<noteq> [])"

text \<open>\<open>manifest.get('images', [])\<close>: only a dictionary has \<open>get\<close>.\<close>

fun get_images :: "json \<Rightarrow> exn + json" where
  "get_images (JDict kvs) = (case map_of kvs ''images'' of None \<Rightarrow> Inr (JList []) | Some v \<Rightarrow> Inr v)"
| "get_images v = Inl (Exn ''AttributeError'' ''object has no attribute get'')"

text \<open>
  \<open>for img in ...\<close>: the items of a list, the keys of a dictionary, the characters of a
  string (here one item per byte; each item is a string, and that is all the loop body
  depends on).
\<close>

fun iter_items :: "json \<Rightarrow> exn + json list" where
  "iter_items (JList xs) = Inr xs"
| "iter_items (JDict kvs) = Inr (map (\<lambda>kv. JStr (fst kv)) kvs)"
| "iter_items (JStr s) = Inr (map (\<lambda>c. JStr [c]) s)"
| "iter_items v = Inl (Exn ''TypeError'' ''object is not iterable'')"

text \<open>\<open>img['file']\<close>\<close>

fun entry_file :: "json \<Rightarrow> exn + json" where
  "entry_file (JDict kvs) =
     (case map_of kvs ''file'' of
        None \<Rightarrow> Inl (Exn ''KeyError'' ([CHR 0x27] @ ''file'' @ [CHR 0x27]))
      | Some v \<Rightarrow> Inr v)"
| "entry_file (JStr s) = Inl (Exn ''TypeError'' ''string indices must be integers'')"
| "entry_file (JList xs) = Inl (Exn ''TypeError'' ''list indices must be integers or slices'')"
| "entry_file v = Inl (Exn ''TypeError'' ''object is not subscriptable'')"

text \<open>A member of a set must be hashable: lists and dictionaries are not.\<close>

fun hashable :: "json \<Rightarrow> bool" where
  "hashable (JList xs) = False"
| "hashable (JDict kvs) = False"
| "hashable v = True"

fun is_str :: "json \<Rightarrow> bool" where
  "is_str (JStr s) = True"
| "is_str v = False"

text \<open>\<open>{img['file'] for img in ...}\<close>, the members in the order met.\<close>

fun manifest_files :: "json list \<Rightarrow> exn + json list" where
  "manifest_files [] = Inr []"
| "manifest_files (img # rest) =
     (case entry_file img of
        Inl e \<Rightarrow> Inl e
      | Inr f \<Rightarrow>
          if \<not> hashable f then Inl (Exn ''TypeError'' ''unhashable type'')
          else (case manifest_files rest of Inl e \<Rightarrow> Inl e | Inr fs \<Rightarrow> Inr (f # fs)))"

text \<open>
  The block under \<open>if not args.no_verify\<close> once the manifest is loaded. The two
  warnings join the names with \<open>', '.join(...)\<close>, which raises \<open>TypeError\<close> on a member
  that is no string; the found names are strings, so only \<open>missing_files\<close> can hold one.
\<close>

definition verify_manifest :: "json \<Rightarrow> path list \<Rightarrow> exn + unit" where
  "verify_manifest manifest tar_files =
     (if \<not> truthy manifest then Inr ()
      else (case get_images manifest of
              Inl e \<Rightarrow> Inl e
            | Inr v \<Rightarrow>
               (case iter_items v of
                  Inl e \<Rightarrow> Inl e
                | Inr imgs \<Rightarrow>
                   (case manifest_files imgs of
                      Inl e \<Rightarrow> Inl e
                    | Inr files \<Rightarrow>
                        let found_files = map (\<lambda>f. JStr (path_name f)) tar_files;
                            missing_files = filter (\<lambda>f. f \<notin> set found_files) files
                        in if list_all is_str missing_files then Inr ()
                           else Inl (Exn ''TypeError'' ''sequence item: expected str instance'')))))"

text \<open>The line of the runtime that names the loaded image.\<close>

definition is_loaded_line :: "string \<Rightarrow> bool" where
  "is_loaded_line line = startswith line ''Loaded image:''"

text \<open>\<open>line.split(':', 1)[1].strip()\<close>\<close>

definition loaded_name :: "string \<Rightarrow> exn + string" where
  "loaded_name line =
     (case nth_item (split_once (CHR '':'') line) 1 of
        Inl e \<Rightarrow> Inl e
      | Inr rest \<Rightarrow> Inr (strip rest))"

text \<open>
  The loop of \<open>import_single_image\<close> over \<open>result.stderr.split('\n')\<close>, which starts
  from \<open>imported_image = "unknown"\<close> and stops at the first matching line.
\<close>

definition parse_loaded :: "string \<Rightarrow> exn + string" where
  "parse_loaded err =
     (if err = [] then Inr ''unknown''
      else (case find is_loaded_line (split_all (CHR 0x0A) err) of
              None \<Rightarrow> Inr ''unknown''
            | Some line \<Rightarrow> loaded_name line))"

text \<open>The fixed parts of the messages, in UTF-8; each ends with a colon and a space.\<close>

definition msg_missing :: string where
  "msg_missing = [CHR 0xE6, CHR 0x96, CHR 0x87, CHR 0xE4, CHR 0xBB, CHR 0xB6, CHR 0xE4, CHR 0xB8,
                  CHR 0x8D, CHR 0xE5, CHR 0xAD, CHR 0x98, CHR 0xE5, CHR 0x9C, CHR 0xA8] @ '': ''"

definition msg_empty :: string where
  "msg_empty = [CHR 0xE6, CHR 0x96, CHR 0x87, CHR 0xE4, CHR 0xBB, CHR 0xB6, CHR 0xE4, CHR 0xB8,
                CHR 0xBA, CHR 0xE7, CHR 0xA9, CHR 0xBA] @ '': ''"

definition msg_failed :: string where
  "msg_failed = [CHR 0xE5, CHR 0xAF, CHR 0xBC, CHR 0xE5, CHR 0x85, CHR 0xA5, CHR 0xE5, CHR 0xA4,
                 CHR 0xB1, CHR 0xE8, CHR 0xB4, CHR 0xA5] @ '': ''"

definition msg_exception :: string where
  "msg_exception = [CHR 0xE5, CHR 0xAF, CHR 0xBC, CHR 0xE5, CHR 0x85, CHR 0xA5, CHR 0xE5, CHR 0xBC,
                    CHR 0x82, CHR 0xE5, CHR 0xB8, CHR 0xB8] @ '': ''"

text \<open>
  \<open>DockerImageImporter.import_single_image\<close>: the triple (name, success, message). The
  parameter \<open>force\<close> is received and not read.
\<close>

definition import_single_image :: "import_env \<Rightarrow> path \<Rightarrow> bool \<Rightarrow> string \<times> bool \<times> string" where
  "import_single_image env tar_file force =
     (case node_at env tar_file of
        None \<Rightarrow> (tar_file, False, msg_missing @ tar_file)
      | Some n \<Rightarrow>
          if st_size n = 0 then (tar_file, False, msg_empty @ tar_file)
          else (case load_run env tar_file of
                  Raised e \<Rightarrow> (tar_file, False, msg_exception @ exn_text e)
                | Exited rc out err \<Rightarrow>
                    if rc = 0
                    then (case parse_loaded err of
                            Inl e \<Rightarrow> (tar_file, False, msg_exception @ exn_text e)
                          | Inr imported_image \<Rightarrow> (imported_image, True, []))
                    else (tar_file, False, msg_failed @ err)))"

text \<open>
  \<open>DockerImageImporter.get_image_name_from_tar\<close>: the name guessed from the file name,
  else asked of \<open>docker load --quiet\<close>. No other function of the script calls it.
\<close>

definition get_image_name_from_tar :: "import_env \<Rightarrow> path \<Rightarrow> string option" where
  "get_image_name_from_tar env tar_file =
     (let filename = path_stem tar_file;
          parts = split_once (CHR ''_'') filename
      in if CHR ''_'' \<in> set filename \<and> CHR ''-'' \<in> set filename \<and> length parts = 2
         then Some (parts ! 0 @ ''/'' @ replace_first (CHR ''-'') (CHR '':'') (parts ! 1))
         else (case load_quiet_run env tar_file of
                 Raised e \<Rightarrow> None
               | Exited rc out err \<Rightarrow>
                   if rc = 0 \<and> err \<noteq> []
                   then (case find is_loaded_line (split_all (CHR 0x0A) err) of
                           None \<Rightarrow> None
                         | Some line \<Rightarrow>
                             (case loaded_name line of Inl e \<Rightarrow> None | Inr name \<Rightarrow> Some name))
                   else None))"

text \<open>\<open>future.result()\<close> for the task submitted for \<open>tar_file\<close>.\<close>

definition import_result :: "import_env \<Rightarrow> path \<Rightarrow> bool \<Rightarrow> exn + string \<times> bool \<times> string" where
  "import_result env tar_file force =
     (case task_fault env tar_file of
        Some e \<Rightarrow> Inl e
      | None \<Rightarrow> Inr (import_single_image env tar_file force))"

text \<open>The body of the loop \<open>for future in as_completed(future_to_file)\<close>.\<close>

definition harvest :: "import_env \<Rightarrow> bool \<Rightarrow> importer \<Rightarrow> path \<Rightarrow> importer" where
  "harvest env force imp tar_file =
     (case import_result env tar_file force of
        Inr (image_name, success, error_msg) \<Rightarrow>
          if success then imp\<lparr>imported_images := imported_images imp @ [image_name]\<rparr>
          else imp\<lparr>failed_imports :=
                     failed_imports imp @ [\<lparr>ff_file = tar_file, ff_error = error_msg\<rparr>]\<rparr>
      | Inl e \<Rightarrow>
          imp\<lparr>failed_imports :=
                failed_imports imp @ [\<lparr>ff_file = tar_file, ff_error = exn_text e\<rparr>]\<rparr>)"

text \<open>
  \<open>DockerImageImporter.import_images\<close>. \<open>completed\<close> is the order in which
  \<open>as_completed\<close> yields the futures of the submitted files: some permutation of them,
  chosen by the pool and the running times. The result is the exception that leaves the
  function, or the importer afterwards with the returned flag.
\<close>

definition import_images ::
  "import_env \<Rightarrow> (path list \<Rightarrow> path list) \<Rightarrow> importer \<Rightarrow> path list \<Rightarrow> bool \<Rightarrow> exn + importer \<times> bool" where
  "import_images env completed imp tar_files force =
     (if tar_files = [] then Inr (imp, False)
      else if max_workers imp \<le> 0 then Inl pool_error
      else let imp' = foldl (harvest env force) imp (completed tar_files)
           in Inr (imp', failed_imports imp' = []))"

text \<open>
  \<open>DockerImageImporter.list_imported_images\<close> catches \<open>CalledProcessError\<close> only.
  \<open>cleanup_dangling_images\<close> catches every \<open>Exception\<close> and changes nothing the script
  reads afterwards, so \<open>main\<close> below steps over it.
\<close>

definition list_imported_images :: "import_env \<Rightarrow> exn + unit" where
  "list_imported_images env =
     (case images_run env of
        Exited rc out err \<Rightarrow> Inr ()
      | Raised e \<Rightarrow> if exn_class e = ''CalledProcessError'' then Inr () else Inl e)"

text \<open>The parsed command line of the import script.\<close>

record import_args =
  arg_dir :: path
  arg_files :: "string list option"
  arg_workers :: int
  arg_force :: bool
  arg_cleanup :: bool
  arg_list :: bool
  arg_no_verify :: bool

text \<open>The files named with \<open>--files\<close>, made relative to the image directory, that exist.\<close>

definition named_files :: "import_env \<Rightarrow> importer \<Rightarrow> string list \<Rightarrow> path list" where
  "named_files env imp names =
     filter (\<lambda>p. node_at env p \<noteq> None)
       (map (\<lambda>file_path. if is_absolute file_path then file_path
                          else join_path (images_dir imp) file_path) names)"

definition select_files :: "import_env \<Rightarrow> importer \<Rightarrow> import_args \<Rightarrow> path list" where
  "select_files env imp args =
     (case arg_files args of
        None \<Rightarrow> find_image_files env imp
      | Some names \<Rightarrow> if names = [] then find_image_files env imp else named_files env imp names)"

definition check_manifest :: "import_env \<Rightarrow> importer \<Rightarrow> import_args \<Rightarrow> path list \<Rightarrow> exn + unit" where
  "check_manifest env imp args tar_files =
     (if arg_no_verify args then Inr ()
      else (case load_manifest env imp of
              None \<Rightarrow> Inr ()
            | Some manifest \<Rightarrow> verify_manifest manifest tar_files))"

text \<open>The listing before the import calls \<open>tar_file.stat()\<close> on every file.\<close>

definition stat_all :: "import_env \<Rightarrow> path list \<Rightarrow> exn + unit" where
  "stat_all env tar_files =
     (if list_all (\<lambda>p. node_at env p \<noteq> None) tar_files then Inr ()
      else Inl (Exn ''FileNotFoundError'' ''No such file or directory''))"

text \<open>\<open>main\<close> of the import script, from the parsed arguments on.\<close>

definition main_import ::
  "import_env \<Rightarrow> (path list \<Rightarrow> path list) \<Rightarrow> import_args \<Rightarrow> importer outcome" where
  "main_import env completed args =
     (let importer = new_importer (arg_dir args) (arg_workers args) in
      case check_docker_import env of
        Inl e \<Rightarrow> crashes e importer
      | Inr available \<Rightarrow>
          if \<not> available then exits 1 importer
          else let tar_files = select_files env importer args in
               if tar_files = [] then exits 1 importer
               else (case check_manifest env importer args tar_files of
                       Inl e \<Rightarrow> crashes e importer
                     | Inr u \<Rightarrow>
                        (case stat_all env tar_files of
                           Inl e \<Rightarrow> crashes e importer
                         | Inr u \<Rightarrow>
                            (case import_images env completed importer tar_files (arg_force args) of
                               Inl e \<Rightarrow> crashes e importer
                             | Inr (importer', success) \<Rightarrow>
                                 (case (if arg_list args then list_imported_images env else Inr ()) of
                                    Inl e \<Rightarrow> crashes e importer'
                                  | Inr u \<Rightarrow> exits (if success then 0 else 1) importer')))))"

text \<open>
  What \<open>show_import_summary\<close> prints as its counts: total, imported, skipped, failed.
\<close>

definition summary_counts :: "importer \<Rightarrow> nat \<times> nat \<times> nat \<times> nat" where
  "summary_counts imp =
     (length (imported_images imp) + length (failed_imports imp) + length (skipped_images imp),
      length (imported_images imp), length (skipped_images imp), length (failed_imports imp))"



section \<open>The export script (\<open>download_images.py\<close>)\<close>

text \<open>
  What the export meets outside itself: the answers of the \<open>docker\<close> binary (for
  \<open>docker save\<close>, the standard output is what the runtime writes into the archive),
  the image values of the services of a compose document in document order (\<open>None\<close> when
  reading or walking the document raises inside \<open>parse_compose_file\<close>; a service whose
  image value is not a string is outside the model), the text \<open>time.strftime\<close> returns,
  the length of the text \<open>json.dump\<close> writes, and \<open>fault\<close>: an exception that leaves
  a worker's task before the task has touched the disk or the result lists (after its
  \<open>append\<close> the task only returns).
\<close>

record export_env =
  docker_version :: proc
  inspect_run :: "string \<Rightarrow> proc"
  pull_run :: "string \<Rightarrow> proc"
  save_run :: "string \<Rightarrow> proc"
  compose_images :: "path \<Rightarrow> string list option"
  clock :: string
  dump_size :: "json \<Rightarrow> nat"
  fault :: "string \<Rightarrow> exn option"

text \<open>The operations on the outside that a run performs, in the order performed.\<close>

datatype action =
    Inspect string
  | Pull string
  | Save string path
  | Unlink path
  | Write_manifest path

record downloader =
  output_dir :: path
  pool_width :: int
  downloaded_images :: "string list"
  failed_images :: "string list"

text \<open>The downloader together with the disk and the operations performed so far.\<close>

record export_state =
  dl :: downloader
  disk :: fs
  trace :: "action list"

definition new_downloader :: "path \<Rightarrow> int \<Rightarrow> downloader" where
  "new_downloader dir workers =
     \<lparr>output_dir = dir, pool_width = workers, downloaded_images = [], failed_images = []\<rparr>"

text \<open>The predefined table \<open>image_configs\<close>.\<close>

definition image_configs :: "(string \<times> (string \<times> string list) list) list" where
  "image_configs =
     [(''mysql'',
        [(''confluence_9.2.1'', [''haxqer/confluence:9.2.1'', ''mysql:8.0'']),
         (''confluence_8.5.23'', [''haxqer/confluence:8.5.23'', ''mysql:8.0''])]),
      (''postgresql'',
        [(''confluence_9.2.1'', [''haxqer/confluence:9.2.1'', ''postgres:15'']),
         (''confluence_8.5.23'', [''haxqer/confluence:8.5.23'', ''postgres:15''])])]"

text \<open>
  \<open>DockerImageDownloader.__init__\<close>: \<open>output_dir.mkdir(parents=True, exist_ok=True)\<close>
  raises \<open>FileExistsError\<close> when the path is there and is no directory. Parent
  directories are not tracked, and the size of a directory is never read.
\<close>

definition init_downloader :: "fs \<Rightarrow> path \<Rightarrow> int \<Rightarrow> exn + export_state" where
  "init_downloader d dir workers =
     (case d dir of
        None \<Rightarrow>
          Inr \<lparr>dl = new_downloader dir workers,
               disk = d(dir \<mapsto> \<lparr>is_dir = True, st_size = 0, json_doc = None\<rparr>),
               trace = []\<rparr>
      | Some n \<Rightarrow>
          if is_dir n then Inr \<lparr>dl = new_downloader dir workers, disk = d, trace = []\<rparr>
          else Inl (Exn ''FileExistsError'' ''File exists''))"

text \<open>\<open>DockerImageDownloader.check_docker\<close>\<close>

definition check_docker_export :: "export_env \<Rightarrow> exn + bool" where
  "check_docker_export env = checked_run (docker_version env)"

text \<open>\<open>DockerImageDownloader.parse_compose_file\<close>\<close>

definition parse_compose_file :: "export_env \<Rightarrow> path \<Rightarrow> string list" where
  "parse_compose_file env compose_file =
     (case compose_images env compose_file of None \<Rightarrow> [] | Some images \<Rightarrow> images)"

text \<open>\<open>DockerImageDownloader.get_predefined_images\<close>\<close>

definition get_predefined_images :: "string \<Rightarrow> string \<Rightarrow> string list" where
  "get_predefined_images db_type confluence_version =
     (case map_of image_configs db_type of
        None \<Rightarrow> []
      | Some versions \<Rightarrow>
          (case map_of versions confluence_version of None \<Rightarrow> [] | Some images \<Rightarrow> images))"

text \<open>
  \<open>DockerImageDownloader.image_exists_locally\<close>: \<open>docker image inspect\<close> with
  \<open>check=True\<close>; only \<open>CalledProcessError\<close> is caught here.
\<close>

definition image_exists_locally :: "export_env \<Rightarrow> string \<Rightarrow> exn + bool" where
  "image_exists_locally env img =
     (case inspect_run env img of
        Exited rc out err \<Rightarrow> Inr (rc = 0)
      | Raised e \<Rightarrow> if exn_class e = ''CalledProcessError'' then Inr False else Inl e)"

text \<open>
  \<open>DockerImageDownloader.pull_image\<close>: no pull when the image is present; every
  exception gives \<open>False\<close>.
\<close>

definition pull_image :: "export_env \<Rightarrow> export_state \<Rightarrow> string \<Rightarrow> export_state \<times> bool" where
  "pull_image env st img =
     (let st1 = st\<lparr>trace := trace st @ [Inspect img]\<rparr> in
      case image_exists_locally env img of
        Inl e \<Rightarrow> (st1, False)
      | Inr present \<Rightarrow>
          if present then (st1, True)
          else let st2 = st1\<lparr>trace := trace st1 @ [Pull img]\<rparr> in
               (case pull_run env img of
                  Exited rc out err \<Rightarrow> (st2, rc = 0)
                | Raised e \<Rightarrow> (st2, False)))"

text \<open>
  \<open>bytes.decode()\<close> raises on bytes that are not UTF-8 (no overlong form, no surrogate,
  nothing above U+10FFFF).
\<close>

definition byte :: "char \<Rightarrow> nat" where
  "byte c = of_char c"

definition cont_byte :: "char \<Rightarrow> bool" where
  "cont_byte c = (0x80 \<le> byte c \<and> byte c \<le> 0xBF)"

fun utf8 :: "string \<Rightarrow> bool" where
  "utf8 [] = True"
| "utf8 (a # s) =
     (let x = byte a in
      if x < 0x80 then utf8 s
      else if 0xC2 \<le> x \<and> x \<le> 0xDF then
        (case s of b # s1 \<Rightarrow> cont_byte b \<and> utf8 s1 | _ \<Rightarrow> False)
      else if 0xE0 \<le> x \<and> x \<le> 0xEF then
        (case s of
           b # c # s2 \<Rightarrow>
             cont_byte b \<and> cont_byte c
             \<and> (if x = 0xE0 then 0xA0 \<le> byte b else True)
             \<and> (if x = 0xED then byte b \<le> 0x9F else True)
             \<and> utf8 s2
         | _ \<Rightarrow> False)
      else if 0xF0 \<le> x \<and> x \<le> 0xF4 then
        (case s of
           b # c # d # s3 \<Rightarrow>
             cont_byte b \<and> cont_byte c \<and> cont_byte d
             \<and> (if x = 0xF0 then 0x90 \<le> byte b else True)
             \<and> (if x = 0xF4 then byte b \<le> 0x8F else True)
             \<and> utf8 s3
         | _ \<Rightarrow> False)
      else False)"

text \<open>The archive of an image inside the output directory.\<close>

definition tar_path :: "downloader \<Rightarrow> string \<Rightarrow> path" where
  "tar_path d img = join_path (output_dir d) (tar_name img)"

definition plain_file :: "nat \<Rightarrow> node" where
  "plain_file n = \<lparr>is_dir = False, st_size = n, json_doc = None\<rparr>"

text \<open>
  \<open>DockerImageDownloader.save_image\<close>. An archive that is there, of whatever size, ends
  the function with \<open>True\<close>. Otherwise \<open>open(tar_file, 'wb')\<close> creates the file (the
  output directory is there since \<open>__init__\<close>, so \<open>open\<close> is taken to succeed) and
  \<open>docker save\<close> writes into it. When \<open>run\<close> raises, or the error text cannot be
  decoded, the handler returns \<open>False\<close> and the file stays as it is; on a non-zero exit
  the file is removed.
\<close>

definition save_image :: "export_env \<Rightarrow> export_state \<Rightarrow> string \<Rightarrow> export_state \<times> bool" where
  "save_image env st img =
     (let tar_file = tar_path (dl st) img in
      if disk st tar_file \<noteq> None then (st, True)
      else let st1 = st\<lparr>disk := (disk st)(tar_file \<mapsto> plain_file 0),
                          trace := trace st @ [Save img tar_file]\<rparr> in
           (case save_run env img of
              Raised e \<Rightarrow> (st1, False)
            | Exited rc out err \<Rightarrow>
                let st2 = st1\<lparr>disk := (disk st1)(tar_file \<mapsto> plain_file (length out))\<rparr> in
                if rc = 0 then (st2, True)
                else if \<not> utf8 err then (st2, False)
                else (st2\<lparr>disk := (disk st2)(tar_file := None),
                          trace := trace st2 @ [Unlink tar_file]\<rparr>, False)))"

text \<open>\<open>DockerImageDownloader.download_and_save_image\<close>\<close>

definition download_and_save_image ::
  "export_env \<Rightarrow> export_state \<Rightarrow> string \<Rightarrow> export_state \<times> string \<times> bool" where
  "download_and_save_image env st img =
     (let (st1, pulled) = pull_image env st img;
          (st2, success) = (if pulled then save_image env st1 img else (st1, False))
      in if success
         then (st2\<lparr>dl := (dl st2)\<lparr>downloaded_images := downloaded_images (dl st2) @ [img]\<rparr>\<rparr>,
               img, True)
         else (st2\<lparr>dl := (dl st2)\<lparr>failed_images := failed_images (dl st2) @ [img]\<rparr>\<rparr>,
               img, False))"

text \<open>
  One submitted task together with its turn in the loop
  \<open>for future in as_completed(future_to_image)\<close>: the task runs, and an exception that
  left it puts the image into \<open>failed_images\<close>.
\<close>

definition complete_task :: "export_env \<Rightarrow> export_state \<Rightarrow> string \<Rightarrow> export_state" where
  "complete_task env st img =
     (case fault env img of
        Some e \<Rightarrow> st\<lparr>dl := (dl st)\<lparr>failed_images := failed_images (dl st) @ [img]\<rparr>\<rparr>
      | None \<Rightarrow> fst (download_and_save_image env st img))"

text \<open>
  \<open>DockerImageDownloader.download_images\<close>. \<open>completed\<close> gives the order in which the
  submitted tasks come to their end, a permutation of the images; a task is taken as one
  step at its place in that order.
\<close>

definition download_images ::
  "export_env \<Rightarrow> (string list \<Rightarrow> string list) \<Rightarrow> export_state \<Rightarrow> string list
     \<Rightarrow> exn + export_state \<times> bool" where
  "download_images env completed st images =
     (if images = [] then Inr (st, False)
      else if pool_width (dl st) \<le> 0 then Inl pool_error
      else let st' = foldl (complete_task env) st (completed images)
           in Inr (st', failed_images (dl st') = []))"

text \<open>An entry of the manifest and the manifest, as the dictionaries the script builds.\<close>

definition image_info :: "export_state \<Rightarrow> string \<Rightarrow> json" where
  "image_info st img =
     JDict [(''name'', JStr img),
            (''file'', JStr (tar_name img)),
            (''size_bytes'',
               JInt (case disk st (tar_path (dl st) img) of
                       None \<Rightarrow> 0
                     | Some n \<Rightarrow> int (st_size n)))]"

definition manifest_of :: "export_env \<Rightarrow> export_state \<Rightarrow> json" where
  "manifest_of env st =
     JDict [(''generated_at'', JStr (clock env)),
            (''total_images'', JInt (int (length (downloaded_images (dl st))))),
            (''images'', JList (map (image_info st) (downloaded_images (dl st))))]"

text \<open>
  \<open>DockerImageDownloader.generate_manifest\<close>: \<open>open(manifest_file, 'w')\<close> raises
  \<open>IsADirectoryError\<close> on a directory; nothing in the function or in \<open>main\<close> catches it.
\<close>

definition generate_manifest :: "export_env \<Rightarrow> export_state \<Rightarrow> exn + export_state" where
  "generate_manifest env st =
     (let manifest_file = manifest_path (output_dir (dl st));
          manifest = manifest_of env st
      in case disk st manifest_file of
           None \<Rightarrow>
             Inr (st\<lparr>disk := (disk st)(manifest_file \<mapsto>
                          \<lparr>is_dir = False, st_size = dump_size env manifest, json_doc = Some manifest\<rparr>),
                     trace := trace st @ [Write_manifest manifest_file]\<rparr>)
         | Some n \<Rightarrow>
             if is_dir n then Inl (Exn ''IsADirectoryError'' ''Is a directory'')
             else Inr (st\<lparr>disk := (disk st)(manifest_file \<mapsto>
                          \<lparr>is_dir = False, st_size = dump_size env manifest, json_doc = Some manifest\<rparr>),
                     trace := trace st @ [Write_manifest manifest_file]\<rparr>))"

text \<open>The parsed command line of the export script.\<close>

record export_args =
  arg_compose :: "string option"
  arg_images :: "string list option"
  arg_db :: "string option"
  arg_version :: "string option"
  arg_output :: path
  arg_pool :: int
  arg_no_manifest :: bool

text \<open>
  The three sources of the image list in \<open>main\<close>, tried in the order compose file,
  image list, predefined pair; an argument counts when it is given and not empty.
  \<open>None\<close> is the early \<open>sys.exit(1)\<close> for a compose file that does not exist.
\<close>

definition predefined_source :: "export_args \<Rightarrow> string list" where
  "predefined_source args =
     (case arg_db args of
        None \<Rightarrow> []
      | Some db \<Rightarrow>
          (case arg_version args of
             None \<Rightarrow> []
           | Some version \<Rightarrow>
               if db \<noteq> [] \<and> version \<noteq> [] then get_predefined_images db version else []))"

definition listed_source :: "export_args \<Rightarrow> string list" where
  "listed_source args =
     (case arg_images args of
        None \<Rightarrow> predefined_source args
      | Some images \<Rightarrow> if images \<noteq> [] then images else predefined_source args)"

definition select_images :: "export_env \<Rightarrow> export_state \<Rightarrow> export_args \<Rightarrow> string list option" where
  "select_images env st args =
     (case arg_compose args of
        None \<Rightarrow> Some (listed_source args)
      | Some compose_file \<Rightarrow>
          if compose_file = [] then Some (listed_source args)
          else if disk st compose_file = None then None
          else Some (parse_compose_file env compose_file))"

text \<open>
  The check of \<open>main\<close> on the predefined pair: one of \<open>--db\<close> and \<open>--version\<close>
  without the other.
\<close>

definition given :: "string option \<Rightarrow> bool" where
  "given a = (case a of None \<Rightarrow> False | Some v \<Rightarrow> v \<noteq> [])"

definition half_pair :: "export_args \<Rightarrow> bool" where
  "half_pair args = (given (arg_db args) \<noteq> given (arg_version args))"

text \<open>The manifest step of \<open>main\<close>.\<close>

definition manifest_step :: "export_env \<Rightarrow> export_args \<Rightarrow> export_state \<Rightarrow> exn + export_state" where
  "manifest_step env args st =
     (if \<not> arg_no_manifest args \<and> downloaded_images (dl st) \<noteq> []
      then generate_manifest env st else Inr st)"

text \<open>
  \<open>main\<close> of the export script, from the parsed arguments on, on the disk \<open>d\<close>.
  \<open>parser.error\<close> ends the process with code 2.
\<close>

definition main_export ::
  "export_env \<Rightarrow> (string list \<Rightarrow> string list) \<Rightarrow> fs \<Rightarrow> export_args \<Rightarrow> export_state outcome" where
  "main_export env completed d args =
     (let st0 = \<lparr>dl = new_downloader (arg_output args) (arg_pool args), disk = d, trace = []\<rparr> in
      if half_pair args then exits 2 st0
      else (case init_downloader d (arg_output args) (arg_pool args) of
              Inl e \<Rightarrow> crashes e st0
            | Inr st \<Rightarrow>
               (case check_docker_export env of
                  Inl e \<Rightarrow> crashes e st
                | Inr available \<Rightarrow>
                    if \<not> available then exits 1 st
                    else (case select_images env st args of
                            None \<Rightarrow> exits 1 st
                          | Some images \<Rightarrow>
                              if images = [] then exits 1 st
                              else (case download_images env completed st images of
                                      Inl e \<Rightarrow> crashes e st
                                    | Inr (st', success) \<Rightarrow>
                                       (case manifest_step env args st' of
                                          Inl e \<Rightarrow> crashes e st'
                                        | Inr st'' \<Rightarrow> exits (if success then 0 else 1) st''))))))"

section \<open>Concrete environments\<close>

text \<open>
  An image directory with one archive, \<open>haxqer_confluence-9.2.1.tar\<close>, and a runtime that
  loads every archive it is given; \<open>out\<close> and \<open>err\<close> are what \<open>docker load\<close> prints on
  standard output and on standard error.
\<close>

definition one_archive_env :: "string \<Rightarrow> string \<Rightarrow> import_env" where
  "one_archive_env out err =
     \<lparr>version_run = Exited 0 ''Docker version 24.0.7'' [],
      info_run = Exited 0 [] [],
      load_run = (\<lambda>p. Exited 0 out err),
      load_quiet_run = (\<lambda>p. Exited 0 out err),
      images_run = Exited 0 [] [],
      node_at = (\<lambda>p. if p = ''offline_images'' then Some \<lparr>is_dir = True, st_size = 4096, json_doc = None\<rparr>
                      else if p = ''offline_images/haxqer_confluence-9.2.1.tar''
                      then Some \<lparr>is_dir = False, st_size = 1024, json_doc = None\<rparr>
                      else None),
      listing = (\<lambda>p. if p = ''offline_images'' then [''haxqer_confluence-9.2.1.tar''] else []),
      task_fault = (\<lambda>p. None)\<rparr>"

definition loaded_message :: string where
  "loaded_message = ''Loaded image: haxqer/confluence:9.2.1'' @ [CHR 0x0A]"



text \<open>
  A runtime for the export: \<open>present\<close> says which images are in the local store; every
  pull succeeds except that of \<open>nginx:missing\<close>; every save writes seven bytes.
\<close>

definition registry_env :: "(string \<Rightarrow> bool) \<Rightarrow> (string \<Rightarrow> exn option) \<Rightarrow> export_env" where
  "registry_env present faults =
     \<lparr>docker_version = Exited 0 ''Docker version 24.0.7'' [],
      inspect_run = (\<lambda>i. if present i then Exited 0 [] [] else Exited 1 [] ''No such image''),
      pull_run = (\<lambda>i. if i = ''nginx:missing'' then Exited 1 [] ''manifest unknown''
                       else Exited 0 [] []),
      save_run = (\<lambda>i. Exited 0 ''archive'' []),
      compose_images = (\<lambda>p. None),
      clock = ''2024-01-01 00:00:00'',
      dump_size = (\<lambda>j. 256),
      fault = faults\<rparr>"









text \<open>
  A second run of the export: both images of the predefined pair are in the local store
  and their archives, of \<open>bytes\<close> bytes each, are in the output directory.
\<close>

definition all_present :: export_env where
  "all_present = registry_env (\<lambda>i. True) (\<lambda>i. None)"

definition archived_disk :: "nat \<Rightarrow> fs" where
  "archived_disk bytes =
     (\<lambda>p. if p = ''offline_images'' then Some \<lparr>is_dir = True, st_size = 4096, json_doc = None\<rparr>
          else if p = ''offline_images/haxqer_confluence-9.2.1.tar''
                  \<or> p = ''offline_images/mysql-8.0.tar''
          then Some (plain_file bytes)
          else None)"

definition rerun_state :: "nat \<Rightarrow> export_state" where
  "rerun_state bytes = \<lparr>dl = new_downloader ''offline_images'' 3, disk = archived_disk bytes, trace = []\<rparr>"

definition pair_args :: export_args where
  "pair_args =
     \<lparr>arg_compose = None,
      arg_images = Some [''haxqer/confluence:9.2.1'', ''mysql:8.0''],
      arg_db = None, arg_version = None,
      arg_output = ''offline_images'', arg_pool = 3, arg_no_manifest = False\<rparr>"


text \<open>The state of an export after \<open>mysql:8.0\<close> was archived, before the manifest is written.\<close>

definition one_downloaded :: export_state where
  "one_downloaded =
     \<lparr>dl = \<lparr>output_dir = ''offline_images'', pool_width = 3,
             downloaded_images = [''mysql:8.0''], failed_images = []\<rparr>,
      disk = archived_disk 1024,
      trace = [Inspect ''mysql:8.0'']\<rparr>"

text \<open>
  The import directory with its one archive and a manifest whose single entry has a
  \<open>name\<close> and no \<open>file\<close>; the default command line of the import script.
\<close>

definition manifest_without_file :: json where
  "manifest_without_file =
     JDict [(''total_images'', JInt 1),
            (''images'', JList [JDict [(''name'', JStr ''haxqer/confluence:9.2.1'')]])]"

definition hand_edited :: import_env where
  "hand_edited =
     (one_archive_env [] loaded_message)
       \<lparr>node_at := (node_at (one_archive_env [] loaded_message))
           (''offline_images/images_manifest.json'' \<mapsto>
              \<lparr>is_dir = False, st_size = 96, json_doc = Some manifest_without_file\<rparr>)\<rparr>"

definition default_import_args :: import_args where
  "default_import_args =
     \<lparr>arg_dir = ''offline_images'', arg_files = None, arg_workers = 2, arg_force = False,
      arg_cleanup = False, arg_list = False, arg_no_verify = False\<rparr>"

text \<open>The output directory of a second export run in which the manifest path is a directory.\<close>

definition blocked_disk :: fs where
  "blocked_disk =
     (archived_disk 1024)
       (''offline_images/images_manifest.json'' \<mapsto> \<lparr>is_dir = True, st_size = 4096, json_doc = None\<rparr>)"

section \<open>The import batch\<close>

lemma import_single_image_force:
  "import_single_image env tar_file force = import_single_image env tar_file force'"
  by (simp add: import_single_image_def)

lemma import_result_force:
  "import_result env tar_file force = import_result env tar_file force'"
  by (simp add: import_result_def import_single_image_force [of env tar_file force force']
        split: option.splits)

lemma harvest_force: "harvest env force imp tar_file = harvest env force' imp tar_file"
  by (simp add: harvest_def import_result_force [of env tar_file force force'])

lemma foldl_harvest_force:
  "foldl (harvest env force) imp ts = foldl (harvest env force') imp ts"
  by (induction ts arbitrary: imp) (simp_all add: harvest_force [of env force _ _ force'])

lemma import_images_force:
  "import_images env completed imp tar_files force = import_images env completed imp tar_files force'"
  by (simp add: import_images_def foldl_harvest_force [of env force _ _ force'])

lemma harvest_skipped: "skipped_images (harvest env force imp tar_file) = skipped_images imp"
  by (simp add: harvest_def split: sum.splits prod.splits)

lemma foldl_harvest_skipped:
  "skipped_images (foldl (harvest env force) imp ts) = skipped_images imp"
  by (induction ts arbitrary: imp) (simp_all add: harvest_skipped)

lemma import_images_skipped:
  "import_images env completed imp tar_files force = Inr (imp', ok)
   \<Longrightarrow> skipped_images imp' = skipped_images imp"
  by (auto simp: import_images_def Let_def foldl_harvest_skipped split: if_splits)

lemma main_import_final:
  "final (main_import env completed args) = new_importer (arg_dir args) (arg_workers args)
   \<or> (\<exists>tar_files ok.
         import_images env completed (new_importer (arg_dir args) (arg_workers args)) tar_files
           (arg_force args) = Inr (final (main_import env completed args), ok))"
  by (auto simp: main_import_def Let_def exits_def crashes_def split: sum.splits prod.splits)







section \<open>The export task and batch\<close>











section \<open>Properties of the archive naming\<close>

lemma replace_all_map: "replace_all old new s = map (\<lambda>c. if c = old then new else c) s"
  by (induction s) simp_all

lemma replace_all_append:
  "replace_all old new (s @ t) = replace_all old new s @ replace_all old new t"
  by (induction s) simp_all

lemma replace_all_absent: "old \<notin> set s \<Longrightarrow> replace_all old new s = s"
  by (induction s) auto

lemma replace_first_hit:
  "old \<notin> set s \<Longrightarrow> replace_first old new (s @ old # t) = s @ new # t"
  by (induction s) auto

text \<open>
  C5 (counterexample). The reference \<open>ghcr.io/owner/repo:tag\<close> has the form
  namespace/repo:tag with namespace \<open>ghcr.io\<close> and repo \<open>owner/repo\<close>. The code
  replaces both slashes, so the archive is \<open>ghcr.io_owner_repo-tag.tar\<close>, not the name
  \<open>ghcr.io_owner/repo-tag.tar\<close> that replacing only the first slash gives.
\<close>

theorem C5_first_only_counterexample:
  "tar_name (''ghcr.io'' @ ''/'' @ ''owner/repo'' @ '':'' @ ''tag'') = ''ghcr.io_owner_repo-tag.tar''
   \<and> tar_name (''ghcr.io'' @ ''/'' @ ''owner/repo'' @ '':'' @ ''tag'')
       \<noteq> ''ghcr.io'' @ ''_'' @ ''owner/repo'' @ ''-'' @ ''tag'' @ ''.tar''
   \<and> tar_name ''ghcr.io/owner/repo:tag'' \<noteq> first_only_name ''ghcr.io/owner/repo:tag''"
  by (simp add: tar_name_def safe_name_def first_only_name_def)

text \<open>
  C5 (amended). The archive name replaces every \<open>:\<close> by \<open>-\<close> and every \<open>/\<close> by
  \<open>_\<close> and appends \<open>.tar\<close>. When namespace, repo and tag contain neither \<open>/\<close> nor
  \<open>:\<close>, the reference namespace/repo:tag is stored as namespace_repo-tag.tar, which is
  then also what replacing only the first separator of each kind yields.
\<close>

theorem C5_tar_name:
  assumes "\<forall>c \<in> set (ns @ repo @ tag). c \<noteq> CHR ''/'' \<and> c \<noteq> CHR '':''"
  shows "tar_name (ns @ ''/'' @ repo @ '':'' @ tag) = ns @ ''_'' @ repo @ ''-'' @ tag @ ''.tar''
       \<and> tar_name (ns @ ''/'' @ repo @ '':'' @ tag) = first_only_name (ns @ ''/'' @ repo @ '':'' @ tag)
       \<and> (\<forall>img. tar_name img =
            map (\<lambda>c. if c = CHR ''/'' then CHR ''_'' else if c = CHR '':'' then CHR ''-'' else c) img
            @ ''.tar'')"
proof -
  from assms have ns: "CHR ''/'' \<notin> set ns" "CHR '':'' \<notin> set ns"
    and repo: "CHR ''/'' \<notin> set repo" "CHR '':'' \<notin> set repo"
    and tag: "CHR ''/'' \<notin> set tag" "CHR '':'' \<notin> set tag"
    by auto
  have a: "tar_name (ns @ ''/'' @ repo @ '':'' @ tag) = ns @ ''_'' @ repo @ ''-'' @ tag @ ''.tar''"
    using ns repo tag
    by (simp add: tar_name_def safe_name_def replace_all_append replace_all_absent)
  have colon: "CHR '':'' \<notin> set (ns @ ''/'' @ repo)"
    using ns repo by simp
  have "replace_first (CHR '':'') (CHR ''-'') ((ns @ ''/'' @ repo) @ CHR '':'' # tag)
        = (ns @ ''/'' @ repo) @ CHR ''-'' # tag"
    using colon by (rule replace_first_hit)
  then have c1: "replace_first (CHR '':'') (CHR ''-'') (ns @ ''/'' @ repo @ '':'' @ tag)
        = ns @ CHR ''/'' # (repo @ ''-'' @ tag)"
    by simp
  have c2: "replace_first (CHR ''/'') (CHR ''_'') (ns @ CHR ''/'' # (repo @ ''-'' @ tag))
        = ns @ CHR ''_'' # (repo @ ''-'' @ tag)"
    using ns(1) by (rule replace_first_hit)
  have b: "first_only_name (ns @ ''/'' @ repo @ '':'' @ tag) = ns @ ''_'' @ repo @ ''-'' @ tag @ ''.tar''"
    using c1 c2 by (simp add: first_only_name_def)
  have c: "\<forall>img. tar_name img =
            map (\<lambda>c. if c = CHR ''/'' then CHR ''_'' else if c = CHR '':'' then CHR ''-'' else c) img
            @ ''.tar''"
    by (simp add: tar_name_def safe_name_def replace_all_map)
  from a b c show ?thesis by simp
qed

theorem C5_tar_name_witness:
  "tar_name ''haxqer/confluence:9.2.1'' = ''haxqer_confluence-9.2.1.tar''
   \<and> first_only_name ''haxqer/confluence:9.2.1'' = ''haxqer_confluence-9.2.1.tar''"
  using C5_tar_name [of "''haxqer''" "''confluence''" "''9.2.1''"]
  by (simp add: first_only_name_def)

section \<open>The claims about the import task\<close>

text \<open>
  C9. The result of the import task (name, outcome, message) is the same with and without
  the force flag, and so are the result recorded for the file, the whole batch and the
  run of the script: the flag is passed down to \<open>import_single_image\<close>, which never
  reads it.
\<close>

theorem C9_force_flag_ignored:
  "import_single_image env tar_file True = import_single_image env tar_file False
   \<and> import_result env tar_file True = import_result env tar_file False
   \<and> import_images env completed imp tar_files True = import_images env completed imp tar_files False
   \<and> main_import env completed (args\<lparr>arg_force := True\<rparr>)
       = main_import env completed (args\<lparr>arg_force := False\<rparr>)"
proof -
  have "main_import env completed (args\<lparr>arg_force := True\<rparr>)
        = main_import env completed (args\<lparr>arg_force := False\<rparr>)"
    by (simp add: main_import_def Let_def select_files_def check_manifest_def
          import_images_force [of env completed _ _ True False]
          cong: sum.case_cong if_cong prod.case_cong)
  then show ?thesis
    using import_single_image_force [of env tar_file True False]
      import_result_force [of env tar_file True False]
      import_images_force [of env completed imp tar_files True False]
    by simp
qed

text \<open>
  C10. At the end of every run of the import script \<open>skipped_images\<close> is empty, and the
  summary counts 0 skipped files: the list is created empty and no step of the batch
  adds to it.
\<close>

theorem C10_skipped_empty:
  "skipped_images (final (main_import env completed args)) = []
   \<and> fst (snd (snd (summary_counts (final (main_import env completed args))))) = 0"
proof -
  have "skipped_images (final (main_import env completed args)) = []"
    using main_import_final [of env completed args]
    by (auto simp: new_importer_def dest: import_images_skipped)
  then show ?thesis by (simp add: summary_counts_def)
qed

lemma startswith_split: "startswith s p \<Longrightarrow> s = p @ drop (length p) s"
  by (metis append_take_drop_id startswith_def)

lemma loaded_line_split:
  assumes "is_loaded_line line"
  shows "split_once (CHR '':'') line = [''Loaded image'', drop 13 line]"
proof -
  have len: "length ''Loaded image:'' = 13"
    by simp
  from assms have "line = ''Loaded image:'' @ drop (length ''Loaded image:'') line"
    unfolding is_loaded_line_def by (rule startswith_split)
  then have "line = ''Loaded image:'' @ drop 13 line"
    by (simp only: len)
  then obtain rest where line: "line = ''Loaded image:'' @ rest" and rest: "rest = drop 13 line"
    by blast
  show ?thesis
    unfolding rest [symmetric] by (simp add: line split_once_def)
qed

lemma loaded_name_of_loaded_line:
  "is_loaded_line line \<Longrightarrow> loaded_name line = Inr (strip (drop 13 line))"
  by (simp add: loaded_name_def loaded_line_split nth_item_def)

lemma find_loaded_line: "find is_loaded_line ls = Some line \<Longrightarrow> is_loaded_line line"
  by (auto simp: find_Some_iff)

lemma parse_loaded_eq:
  "parse_loaded err =
     Inr (case find is_loaded_line (split_all (CHR 0x0A) err) of
            None \<Rightarrow> ''unknown''
          | Some line \<Rightarrow> strip (drop 13 line))"
proof (cases "err = []")
  case True
  then show ?thesis by (simp add: parse_loaded_def is_loaded_line_def startswith_def)
next
  case False
  then show ?thesis
    by (auto simp: parse_loaded_def loaded_name_of_loaded_line dest: find_loaded_line
             split: option.splits)
qed

text \<open>
  C6 (counterexample). The runtime loads the archive \<open>haxqer_confluence-9.2.1.tar\<close> and
  prints its message on standard output; standard error, the stream the task parses, is
  empty. The task reports the name \<open>unknown\<close>, although the file name would give
  \<open>haxqer/confluence:9.2.1\<close> through \<open>get_image_name_from_tar\<close>.
\<close>

theorem C6_fallback_counterexample:
  "import_single_image (one_archive_env loaded_message [])
      ''offline_images/haxqer_confluence-9.2.1.tar'' False = (''unknown'', True, [])
   \<and> get_image_name_from_tar (one_archive_env loaded_message [])
      ''offline_images/haxqer_confluence-9.2.1.tar'' = Some ''haxqer/confluence:9.2.1''"
  by (simp add: import_single_image_def one_archive_env_def parse_loaded_def
        get_image_name_from_tar_def path_stem_def path_name_def split_once_def Let_def)

text \<open>
  C6 (amended). When the archive is there, is not empty and the runtime exits with code 0,
  the task succeeds with an empty message, and the name it reports is taken from the
  first line of the runtime's standard error that starts with \<open>Loaded image:\<close>: the text
  after that colon, stripped of surrounding white space. When standard error has no such
  line the name is the literal \<open>unknown\<close>; the file name is not consulted.
\<close>

theorem C6_resolved_name:
  assumes "node_at env tar_file = Some n"
    and "st_size n \<noteq> 0"
    and "load_run env tar_file = Exited 0 out err"
  shows "import_single_image env tar_file force =
           ((case find is_loaded_line (split_all (CHR 0x0A) err) of
               None \<Rightarrow> ''unknown''
             | Some line \<Rightarrow> strip (drop 13 line)),
            True, [])"
  using assms by (simp add: import_single_image_def parse_loaded_eq)

theorem C6_resolved_name_witness:
  "import_single_image (one_archive_env [] loaded_message)
      ''offline_images/haxqer_confluence-9.2.1.tar'' False
   = (''haxqer/confluence:9.2.1'', True, [])"
proof -
  let ?env = "one_archive_env [] loaded_message"
  let ?tar = "''offline_images/haxqer_confluence-9.2.1.tar''"
  have n: "node_at ?env ?tar = Some \<lparr>is_dir = False, st_size = 1024, json_doc = None\<rparr>"
    by (simp add: one_archive_env_def)
  have s: "st_size \<lparr>is_dir = False, st_size = 1024, json_doc = None\<rparr> \<noteq> 0"
    by simp
  have l: "load_run ?env ?tar = Exited 0 [] loaded_message"
    by (simp add: one_archive_env_def)
  have line: "find is_loaded_line (split_all (CHR 0x0A) loaded_message)
              = Some ''Loaded image: haxqer/confluence:9.2.1''"
    by (simp add: loaded_message_def is_loaded_line_def startswith_def)
  have name: "strip '' haxqer/confluence:9.2.1'' = ''haxqer/confluence:9.2.1''"
    by (simp add: strip_def lstrip_def rstrip_def whitespace_def strip_prefixes.simps startswith_def)
  from C6_resolved_name [OF n s l, of False] show ?thesis
    by (simp add: line name)
qed

section \<open>The claims about the batch\<close>




















section \<open>The claims about the export task and the manifest\<close>

text \<open>
  C3. When \<open>docker image inspect\<close> finds the image and its archive is in the output
  directory (of any size, so in particular when it is not empty),
  \<open>download_and_save_image\<close> performs the inspection and nothing else: no pull, no save,
  no removal, the disk is as before, and the image is appended to \<open>downloaded_images\<close> and
  reported as succeeded.
\<close>

theorem C3_present_and_archived:
  assumes "inspect_run env img = Exited 0 out err"
    and "disk st (tar_path (dl st) img) = Some n"
  shows "download_and_save_image env st img
         = (st\<lparr>dl := (dl st)\<lparr>downloaded_images := downloaded_images (dl st) @ [img]\<rparr>,
               trace := trace st @ [Inspect img]\<rparr>,
            img, True)
       \<and> pull_image env st img = (st\<lparr>trace := trace st @ [Inspect img]\<rparr>, True)
       \<and> save_image env (st\<lparr>trace := trace st @ [Inspect img]\<rparr>) img
           = (st\<lparr>trace := trace st @ [Inspect img]\<rparr>, True)"
proof -
  have p: "pull_image env st img = (st\<lparr>trace := trace st @ [Inspect img]\<rparr>, True)"
    using assms(1) by (simp add: pull_image_def image_exists_locally_def)
  have s: "save_image env (st\<lparr>trace := trace st @ [Inspect img]\<rparr>) img
           = (st\<lparr>trace := trace st @ [Inspect img]\<rparr>, True)"
    using assms(2) by (simp add: save_image_def)
  have "download_and_save_image env st img
         = (st\<lparr>dl := (dl st)\<lparr>downloaded_images := downloaded_images (dl st) @ [img]\<rparr>,
               trace := trace st @ [Inspect img]\<rparr>,
            img, True)"
    by (simp add: download_and_save_image_def p s)
  with p s show ?thesis
    by simp
qed

theorem C3_present_and_archived_witness:
  "snd (download_and_save_image all_present (rerun_state 1024) ''mysql:8.0'') = (''mysql:8.0'', True)
   \<and> trace (fst (download_and_save_image all_present (rerun_state 1024) ''mysql:8.0''))
       = [Inspect ''mysql:8.0'']
   \<and> disk (fst (download_and_save_image all_present (rerun_state 1024) ''mysql:8.0''))
       = archived_disk 1024
   \<and> downloaded_images (dl (fst (download_and_save_image all_present (rerun_state 1024) ''mysql:8.0'')))
       = [''mysql:8.0'']
   \<and> failed_images (dl (fst (download_and_save_image all_present (rerun_state 1024) ''mysql:8.0'')))
       = []"
proof -
  have i: "inspect_run all_present ''mysql:8.0'' = Exited 0 [] []"
    by (simp add: all_present_def registry_env_def)
  have a: "disk (rerun_state 1024) (tar_path (dl (rerun_state 1024)) ''mysql:8.0'')
           = Some (plain_file 1024)"
    by (simp add: rerun_state_def archived_disk_def tar_path_def tar_name_def safe_name_def
          join_path_def new_downloader_def)
  from C3_present_and_archived [OF i a] show ?thesis
    by (simp add: rerun_state_def new_downloader_def)
qed

text \<open>
  The example of the specification: the two images of a predefined pair, both present and
  archived. The run inspects each image, writes the manifest and exits with code 0; no
  image is pulled or saved.
\<close>

lemma rerun_of_pair:
  "exit_code (main_export all_present (\<lambda>xs. xs) (archived_disk 1024) pair_args) = 0
   \<and> uncaught (main_export all_present (\<lambda>xs. xs) (archived_disk 1024) pair_args) = None
   \<and> downloaded_images (dl (final (main_export all_present (\<lambda>xs. xs) (archived_disk 1024) pair_args)))
       = [''haxqer/confluence:9.2.1'', ''mysql:8.0'']
   \<and> failed_images (dl (final (main_export all_present (\<lambda>xs. xs) (archived_disk 1024) pair_args)))
       = []
   \<and> trace (final (main_export all_present (\<lambda>xs. xs) (archived_disk 1024) pair_args))
       = [Inspect ''haxqer/confluence:9.2.1'', Inspect ''mysql:8.0'',
          Write_manifest ''offline_images/images_manifest.json'']"
  by (simp add: main_export_def half_pair_def given_def init_downloader_def check_docker_export_def
        checked_run_def select_images_def listed_source_def manifest_step_def generate_manifest_def
        manifest_path_def manifest_of_def image_info_def exits_def crashes_def
        download_images_def complete_task_def download_and_save_image_def
        pull_image_def save_image_def image_exists_locally_def registry_env_def
        all_present_def pair_args_def archived_disk_def
        new_downloader_def tar_path_def tar_name_def safe_name_def
        join_path_def plain_file_def Let_def)

lemma generate_manifest_written:
  assumes "generate_manifest env st = Inr st'"
  shows "disk st' = (disk st)(manifest_path (output_dir (dl st)) \<mapsto>
                       \<lparr>is_dir = False, st_size = dump_size env (manifest_of env st),
                        json_doc = Some (manifest_of env st)\<rparr>)"
    and "dl st' = dl st"
    and "trace st' = trace st @ [Write_manifest (manifest_path (output_dir (dl st)))]"
  using assms
  by (auto simp: generate_manifest_def Let_def split: option.splits if_splits)

text \<open>
  C4 (counterexample). Both images are in the local store and both archives are in the
  output directory, with 0 bytes each. \<open>save_image\<close> accepts an archive that is there
  without looking at its size, both images count as downloaded, and the manifest is
  written with two entries of \<open>size_bytes\<close> 0 for archives that are empty.
\<close>

theorem C4_empty_archive_counterexample:
  "exit_code (main_export all_present (\<lambda>xs. xs) (archived_disk 0) pair_args) = 0
   \<and> map_option json_doc
        (disk (final (main_export all_present (\<lambda>xs. xs) (archived_disk 0) pair_args))
           ''offline_images/images_manifest.json'')
       = Some (Some (JDict
           [(''generated_at'', JStr ''2024-01-01 00:00:00''),
            (''total_images'', JInt 2),
            (''images'', JList
               [JDict [(''name'', JStr ''haxqer/confluence:9.2.1''),
                       (''file'', JStr ''haxqer_confluence-9.2.1.tar''),
                       (''size_bytes'', JInt 0)],
                JDict [(''name'', JStr ''mysql:8.0''),
                       (''file'', JStr ''mysql-8.0.tar''),
                       (''size_bytes'', JInt 0)]])]))
   \<and> map_option st_size
        (disk (final (main_export all_present (\<lambda>xs. xs) (archived_disk 0) pair_args))
           ''offline_images/mysql-8.0.tar'')
       = Some 0"
  by (simp add: main_export_def half_pair_def given_def init_downloader_def check_docker_export_def
        checked_run_def select_images_def listed_source_def manifest_step_def generate_manifest_def
        manifest_path_def manifest_of_def image_info_def exits_def crashes_def
        download_images_def complete_task_def download_and_save_image_def
        pull_image_def save_image_def image_exists_locally_def registry_env_def
        all_present_def pair_args_def archived_disk_def
        new_downloader_def tar_path_def tar_name_def safe_name_def
        join_path_def plain_file_def Let_def)

text \<open>
  C4 (amended). Whenever \<open>generate_manifest\<close> writes the manifest, the document has one
  entry for every image of \<open>downloaded_images\<close>, in that order, with the image as
  \<open>name\<close>, its archive name as \<open>file\<close> and as \<open>size_bytes\<close> the size the archive has
  on disk at that moment, or 0 when the archive is not there. No entry is left out
  because its archive is missing or empty, and the archives themselves are untouched.
\<close>

theorem C4_manifest_entries:
  assumes "generate_manifest env st = Inr st'"
  shows "map_option json_doc (disk st' (manifest_path (output_dir (dl st))))
         = Some (Some (JDict
             [(''generated_at'', JStr (clock env)),
              (''total_images'', JInt (int (length (downloaded_images (dl st))))),
              (''images'', JList
                 (map (\<lambda>img. JDict
                         [(''name'', JStr img),
                          (''file'', JStr (tar_name img)),
                          (''size_bytes'',
                             JInt (case disk st (join_path (output_dir (dl st)) (tar_name img)) of
                                     None \<Rightarrow> 0
                                   | Some n \<Rightarrow> int (st_size n)))])
                    (downloaded_images (dl st))))]))
       \<and> (\<forall>img. disk st' (join_path (output_dir (dl st)) (tar_name img))
                 = disk st (join_path (output_dir (dl st)) (tar_name img)))"
proof -
  have names: "join_path dir (tar_name img) \<noteq> manifest_path dir" for dir img
  proof
    assume "join_path dir (tar_name img) = manifest_path dir"
    then have "tar_name img = ''images_manifest.json''"
      by (simp add: join_path_def manifest_path_def)
    then have "last (tar_name img) = last ''images_manifest.json''"
      by simp
    then show False
      by (simp add: tar_name_def)
  qed
  have "image_info st = (\<lambda>img. JDict
                         [(''name'', JStr img),
                          (''file'', JStr (tar_name img)),
                          (''size_bytes'',
                             JInt (case disk st (join_path (output_dir (dl st)) (tar_name img)) of
                                     None \<Rightarrow> 0
                                   | Some n \<Rightarrow> int (st_size n)))])"
    by (rule ext) (simp add: image_info_def tar_path_def)
  then show ?thesis
    using names by (simp add: generate_manifest_written(1) [OF assms] manifest_of_def)
qed

theorem C4_manifest_entries_witness:
  "map_option json_doc
     (disk (case generate_manifest all_present one_downloaded of Inr st' \<Rightarrow> st' | Inl e \<Rightarrow> one_downloaded)
        ''offline_images/images_manifest.json'')
   = Some (Some (JDict
       [(''generated_at'', JStr ''2024-01-01 00:00:00''),
        (''total_images'', JInt 1),
        (''images'', JList
           [JDict [(''name'', JStr ''mysql:8.0''),
                   (''file'', JStr ''mysql-8.0.tar''),
                   (''size_bytes'', JInt 1024)]])]))"
proof -
  let ?written = "one_downloaded\<lparr>disk := (disk one_downloaded)(''offline_images/images_manifest.json'' \<mapsto>
                       \<lparr>is_dir = False, st_size = 256,
                        json_doc = Some (manifest_of all_present one_downloaded)\<rparr>),
                     trace := trace one_downloaded @ [Write_manifest ''offline_images/images_manifest.json'']\<rparr>"
  have g: "generate_manifest all_present one_downloaded = Inr ?written"
    by (simp add: generate_manifest_def one_downloaded_def archived_disk_def manifest_path_def
          join_path_def all_present_def registry_env_def Let_def)
  from C4_manifest_entries [OF g, THEN conjunct1] show ?thesis
    unfolding g sum.case
    by (simp add: one_downloaded_def archived_disk_def manifest_path_def join_path_def
          all_present_def registry_env_def tar_name_def safe_name_def plain_file_def)
qed






section \<open>The exit code\<close>

lemma import_images_flag:
  "import_images env completed imp tar_files force = Inr (imp', ok) \<Longrightarrow> tar_files \<noteq> []
   \<Longrightarrow> ok = (failed_imports imp' = [])"
  by (auto simp: import_images_def Let_def split: if_splits)

lemma download_images_flag:
  "download_images env completed st images = Inr (st', ok) \<Longrightarrow> images \<noteq> []
   \<Longrightarrow> ok = (failed_images (dl st') = [])"
  by (auto simp: download_images_def Let_def split: if_splits)

lemma manifest_step_dl: "manifest_step env args st = Inr st' \<Longrightarrow> dl st' = dl st"
  by (auto simp: manifest_step_def generate_manifest_written(2) split: if_splits)

text \<open>
  The import exits with code 0 exactly when no exception leaves \<open>main\<close>, the runtime is
  usable, some file was selected, and \<open>failed_imports\<close> is empty at the end.
\<close>

lemma main_import_exit_code:
  "exit_code (main_import env completed args) = 0
   \<longleftrightarrow> uncaught (main_import env completed args) = None
       \<and> check_docker_import env = Inr True
       \<and> select_files env (new_importer (arg_dir args) (arg_workers args)) args \<noteq> []
       \<and> failed_imports (final (main_import env completed args)) = []"
  by (auto simp: main_import_def Let_def exits_def crashes_def
           dest: import_images_flag split: sum.splits prod.splits if_splits)

text \<open>
  The export exits with code 0 exactly when no exception leaves \<open>main\<close>, the predefined
  pair is not given by half, the runtime is usable, some image was selected, and
  \<open>failed_images\<close> is empty at the end.
\<close>

lemma main_export_exit_code:
  "exit_code (main_export env completed d args) = 0
   \<longleftrightarrow> uncaught (main_export env completed d args) = None
       \<and> \<not> half_pair args
       \<and> check_docker_export env = Inr True
       \<and> (\<exists>st images. init_downloader d (arg_output args) (arg_pool args) = Inr st
             \<and> select_images env st args = Some images \<and> images \<noteq> [])
       \<and> failed_images (dl (final (main_export env completed d args))) = []"
  by (auto simp: main_export_def Let_def exits_def crashes_def
           dest!: download_images_flag manifest_step_dl
           split: sum.splits prod.splits if_splits option.splits)

text \<open>
  C1 (the code at the failing inputs). Import: the directory holds one archive that
  loads, and a manifest whose entry has no \<open>file\<close>. The manifest check of \<open>main\<close> raises
  \<open>KeyError\<close> outside any \<open>try\<close>: the process ends with code 1 before any task ran,
  with nothing in \<open>failed_imports\<close>; with \<open>--no-verify\<close> the same run exits with code 0.
  Export: both images are present and archived and the manifest path is a directory. The
  batch ends with nothing in \<open>failed_images\<close>, \<open>generate_manifest\<close> raises
  \<open>IsADirectoryError\<close> and the process ends with code 1; with \<open>--no-manifest\<close> the same
  run exits with code 0.
\<close>

theorem C1_exit_code_depends_on_manifest:
  "exit_code (main_import hand_edited (\<lambda>xs. xs) default_import_args) = 1
   \<and> uncaught (main_import hand_edited (\<lambda>xs. xs) default_import_args)
       = Some (Exn ''KeyError'' ([CHR 0x27] @ ''file'' @ [CHR 0x27]))
   \<and> failed_imports (final (main_import hand_edited (\<lambda>xs. xs) default_import_args)) = []
   \<and> imported_images (final (main_import hand_edited (\<lambda>xs. xs) default_import_args)) = []
   \<and> exit_code (main_import hand_edited (\<lambda>xs. xs) (default_import_args\<lparr>arg_no_verify := True\<rparr>)) = 0
   \<and> imported_images
        (final (main_import hand_edited (\<lambda>xs. xs) (default_import_args\<lparr>arg_no_verify := True\<rparr>)))
       = [''haxqer/confluence:9.2.1'']
   \<and> exit_code (main_export all_present (\<lambda>xs. xs) blocked_disk pair_args) = 1
   \<and> uncaught (main_export all_present (\<lambda>xs. xs) blocked_disk pair_args)
       = Some (Exn ''IsADirectoryError'' ''Is a directory'')
   \<and> failed_images (dl (final (main_export all_present (\<lambda>xs. xs) blocked_disk pair_args))) = []
   \<and> downloaded_images (dl (final (main_export all_present (\<lambda>xs. xs) blocked_disk pair_args)))
       = [''haxqer/confluence:9.2.1'', ''mysql:8.0'']
   \<and> exit_code (main_export all_present (\<lambda>xs. xs) blocked_disk (pair_args\<lparr>arg_no_manifest := True\<rparr>))
       = 0"
proof -
  have i1: "main_import hand_edited (\<lambda>xs. xs) default_import_args
            = crashes (Exn ''KeyError'' ([CHR 0x27] @ ''file'' @ [CHR 0x27]))
                (new_importer ''offline_images'' 2)"
    by (simp add: main_import_def check_docker_import_def checked_run_def select_files_def
          find_image_files_def glob_tar_def endswith_def join_path_def check_manifest_def
          load_manifest_def manifest_path_def verify_manifest_def manifest_without_file_def
          new_importer_def
          hand_edited_def one_archive_env_def default_import_args_def Let_def)
  have i2: "exit_code (main_import hand_edited (\<lambda>xs. xs) (default_import_args\<lparr>arg_no_verify := True\<rparr>)) = 0
            \<and> imported_images
                 (final (main_import hand_edited (\<lambda>xs. xs) (default_import_args\<lparr>arg_no_verify := True\<rparr>)))
                = [''haxqer/confluence:9.2.1'']"
    by (simp add: main_import_def check_docker_import_def checked_run_def select_files_def
          find_image_files_def glob_tar_def endswith_def join_path_def check_manifest_def
          stat_all_def import_images_def harvest_def import_result_def import_single_image_def
          parse_loaded_def loaded_message_def is_loaded_line_def startswith_def loaded_name_def
          split_once_def nth_item_def strip_def lstrip_def rstrip_def whitespace_def
          strip_prefixes.simps new_importer_def exits_def
          hand_edited_def one_archive_env_def default_import_args_def Let_def)
  have e1: "exit_code (main_export all_present (\<lambda>xs. xs) blocked_disk pair_args) = 1
            \<and> uncaught (main_export all_present (\<lambda>xs. xs) blocked_disk pair_args)
                = Some (Exn ''IsADirectoryError'' ''Is a directory'')
            \<and> failed_images (dl (final (main_export all_present (\<lambda>xs. xs) blocked_disk pair_args))) = []
            \<and> downloaded_images (dl (final (main_export all_present (\<lambda>xs. xs) blocked_disk pair_args)))
                = [''haxqer/confluence:9.2.1'', ''mysql:8.0'']"
    by (simp add: main_export_def half_pair_def given_def init_downloader_def check_docker_export_def
          checked_run_def select_images_def listed_source_def manifest_step_def generate_manifest_def
          manifest_path_def exits_def crashes_def
          download_images_def complete_task_def download_and_save_image_def
          pull_image_def save_image_def image_exists_locally_def registry_env_def
          all_present_def pair_args_def archived_disk_def blocked_disk_def
          new_downloader_def tar_path_def tar_name_def safe_name_def
          join_path_def plain_file_def Let_def)
  have e2: "exit_code (main_export all_present (\<lambda>xs. xs) blocked_disk (pair_args\<lparr>arg_no_manifest := True\<rparr>))
            = 0"
    by (simp add: main_export_def half_pair_def given_def init_downloader_def check_docker_export_def
          checked_run_def select_images_def listed_source_def manifest_step_def
          exits_def crashes_def
          download_images_def complete_task_def download_and_save_image_def
          pull_image_def save_image_def image_exists_locally_def registry_env_def
          all_present_def pair_args_def archived_disk_def blocked_disk_def
          new_downloader_def tar_path_def tar_name_def safe_name_def
          join_path_def plain_file_def Let_def)
  from i1 i2 e1 e2 show ?thesis
    by (simp add: crashes_def new_importer_def)
qed

end
